theory Spec2Isabelle
  imports Main "HOL-Library.Word"
begin

section \<open>The job system of the Tako engine\<close>

text \<open>
  The module \<^verbatim>\<open>Tako.JobSystem\<close> is embedded as seen by one worker thread. Job records
  live in an explicit store (addresses to records), because the free list and the delete list
  are threaded through the \<^verbatim>\<open>m_parent\<close> field of the records themselves. The thread-local
  variables of the class are fields of the state. A null pointer is \<open>None\<close>. Dereferencing an
  address that holds no record, indexing a queue vector out of range and a failed
  \<^verbatim>\<open>ASSERT\<close> are results of their own. One thread is modelled: what other threads do between
  two of its steps is outside the model, and an atomic operation is a step like any other.

  \<^verbatim>\<open>int\<close> is a 32-bit word, \<^verbatim>\<open>size_t\<close> a 64-bit word, \<^verbatim>\<open>unsigned int\<close> a natural number with
  the reduction modulo \<open>2 ^ 32\<close> written where the source adds.
\<close>

subsection \<open>Data\<close>

type_synonym addr = nat

text \<open>A callable moved into a job: \<open>fsize\<close> is \<^verbatim>\<open>sizeof(JobFunctor<Functor>)\<close>, \<open>fcode\<close>
  names the code that \<^verbatim>\<open>operator()\<close> runs.\<close>

record JobFunctor =
  fsize :: "64 word"
  fcode :: nat

record Job =
  m_parent :: "addr option"
  m_continuation :: "addr option"
  m_functorActive :: bool
  m_jobsLeft :: "32 word"
  m_functorSize :: "64 word"
  m_functorData :: "JobFunctor option"

datatype qid = LocalQ nat | GlobalQ nat

text \<open>The effects of the scheduler in program order, kept beside the state so that the
  order of two effects can be stated.\<close>

datatype event =
    EvFetchSub addr
  | EvIncr addr
  | EvSetParent addr "addr option"
  | EvPush qid addr
  | EvPop qid "addr option"
  | EvNotify
  | EvInvoke addr
  | EvReset addr
  | EvLock
  | EvUnlock
  | EvPoolAllocate "addr option"
  | EvPoolDeallocate addr
  | EvWait

datatype error = NullDeref | OutOfRange | BadCall | AssertFailed | OutOfFuel

record jstate =
  heap :: "addr \<rightharpoonup> Job"
  m_localQueues :: "addr list list"
  m_globalQueues :: "addr list list"
  m_stop :: bool
  m_runningJob :: "addr option"
  m_threadIndex :: nat
  m_freeJobList :: "addr option"
  m_freeJobListCount :: "64 word"
  m_deleteJobList :: "addr option"
  m_deleteJobListCount :: "64 word"
  m_threadCount :: nat
  pool :: "addr list"
  trace :: "event list"

subsection \<open>Sequencing fallible steps\<close>

definition bindE :: "error + 'a \<Rightarrow> ('a \<Rightarrow> error + 'b) \<Rightarrow> error + 'b" where
  "bindE m f = (case m of Inl e \<Rightarrow> Inl e | Inr x \<Rightarrow> f x)"

definition emit :: "event \<Rightarrow> jstate \<Rightarrow> jstate" where
  "emit e s = s\<lparr>trace := trace s @ [e]\<rparr>"

definition deref :: "addr \<Rightarrow> jstate \<Rightarrow> error + Job" where
  "deref a s = (case heap s a of None \<Rightarrow> Inl NullDeref | Some j \<Rightarrow> Inr j)"

definition store :: "addr \<Rightarrow> Job \<Rightarrow> jstate \<Rightarrow> jstate" where
  "store a j s = s\<lparr>heap := (heap s)(a \<mapsto> j)\<rparr>"

subsection \<open>class Job\<close>

text \<open>\<^verbatim>\<open>Job::Reset\<close>: an active functor is destroyed, then the links are cleared and the
  counter is set to 1.\<close>

definition Reset :: "Job \<Rightarrow> Job" where
  "Reset j =
     (let j1 = (if m_functorActive j
                then j\<lparr>m_functorData := None, m_functorActive := False\<rparr>
                else j)
      in j1\<lparr>m_parent := None, m_continuation := None, m_jobsLeft := 1\<rparr>)"

text \<open>The constructor \<^verbatim>\<open>Job(size_t functorSize)\<close>: the default member initialisers, then
  \<^verbatim>\<open>Reset()\<close>.\<close>

definition Job_ctor :: "64 word \<Rightarrow> Job" where
  "Job_ctor functorSize =
     Reset \<lparr>m_parent = None, m_continuation = None, m_functorActive = False,
            m_jobsLeft = 1, m_functorSize = functorSize, m_functorData = None\<rparr>"

text \<open>\<^verbatim>\<open>Job::SetFunctor\<close>: an active functor is destroyed, the new one is constructed in
  the inline storage. The source compares no size here.\<close>

definition SetFunctor :: "JobFunctor \<Rightarrow> Job \<Rightarrow> Job" where
  "SetFunctor func j =
     (let j1 = (if m_functorActive j then j\<lparr>m_functorData := None\<rparr> else j)
      in j1\<lparr>m_functorData := Some func, m_functorActive := True\<rparr>)"

subsection \<open>class JobQueue\<close>

text \<open>A queue is the list of its job pointers, front first. The spin lock is free whenever
  one thread runs alone, so \<^verbatim>\<open>Push\<close> and \<^verbatim>\<open>Pop\<close> act at once.\<close>

definition Push :: "qid \<Rightarrow> addr \<Rightarrow> jstate \<Rightarrow> error + jstate" where
  "Push queue job s =
     (case queue of
        LocalQ i \<Rightarrow>
          if i < length (m_localQueues s)
          then Inr (emit (EvPush queue job)
                 (s\<lparr>m_localQueues := (m_localQueues s)[i := m_localQueues s ! i @ [job]]\<rparr>))
          else Inl OutOfRange
      | GlobalQ i \<Rightarrow>
          if i < length (m_globalQueues s)
          then Inr (emit (EvPush queue job)
                 (s\<lparr>m_globalQueues := (m_globalQueues s)[i := m_globalQueues s ! i @ [job]]\<rparr>))
          else Inl OutOfRange)"

definition Pop :: "qid \<Rightarrow> jstate \<Rightarrow> error + (addr option \<times> jstate)" where
  "Pop queue s =
     (case queue of
        LocalQ i \<Rightarrow>
          if i < length (m_localQueues s)
          then (case m_localQueues s ! i of
                  [] \<Rightarrow> Inr (None, emit (EvPop queue None) s)
                | job # rest \<Rightarrow>
                    Inr (Some job, emit (EvPop queue (Some job))
                      (s\<lparr>m_localQueues := (m_localQueues s)[i := rest]\<rparr>)))
          else Inl OutOfRange
      | GlobalQ i \<Rightarrow>
          if i < length (m_globalQueues s)
          then (case m_globalQueues s ! i of
                  [] \<Rightarrow> Inr (None, emit (EvPop queue None) s)
                | job # rest \<Rightarrow>
                    Inr (Some job, emit (EvPop queue (Some job))
                      (s\<lparr>m_globalQueues := (m_globalQueues s)[i := rest]\<rparr>)))
          else Inl OutOfRange)"

subsection \<open>Field updates through a pointer\<close>

definition incr_jobsLeft :: "addr \<Rightarrow> jstate \<Rightarrow> error + jstate" where
  "incr_jobsLeft a s =
     bindE (deref a s) (\<lambda>j. Inr (emit (EvIncr a) (store a (j\<lparr>m_jobsLeft := m_jobsLeft j + 1\<rparr>) s)))"

definition set_parent :: "addr \<Rightarrow> addr option \<Rightarrow> jstate \<Rightarrow> error + jstate" where
  "set_parent a p s =
     bindE (deref a s) (\<lambda>j. Inr (emit (EvSetParent a p) (store a (j\<lparr>m_parent := p\<rparr>) s)))"


subsection \<open>Submission\<close>

text \<open>\<^verbatim>\<open>JobSystem::ScheduleRaw\<close>. The condition is evaluated left to right: the job is read
  only when a job is running.\<close>

definition ScheduleRaw :: "qid \<Rightarrow> addr \<Rightarrow> bool \<Rightarrow> jstate \<Rightarrow> error + (addr \<times> jstate)" where
  "ScheduleRaw queue job detached s =
     bindE (case m_runningJob s of
              None \<Rightarrow> Inr s
            | Some r \<Rightarrow>
                bindE (deref job s) (\<lambda>j.
                  if m_parent j = None \<and> \<not> detached
                  then bindE (incr_jobsLeft r s) (set_parent job (Some r))
                  else Inr s))
       (\<lambda>s1. bindE (Push queue job s1) (\<lambda>s2. Inr (job, emit EvNotify s2)))"

text \<open>\<^verbatim>\<open>Schedule(Job*)\<close>: the global queue of the current worker.\<close>

definition Schedule :: "addr \<Rightarrow> jstate \<Rightarrow> error + (addr \<times> jstate)" where
  "Schedule job s = ScheduleRaw (GlobalQ (m_threadIndex s)) job False s"

text \<open>\<^verbatim>\<open>ScheduleForThread(unsigned int thread, Job*)\<close>: the local queue of the given worker.\<close>

definition ScheduleForThread :: "nat \<Rightarrow> addr \<Rightarrow> jstate \<Rightarrow> error + (addr \<times> jstate)" where
  "ScheduleForThread thread job s = ScheduleRaw (LocalQ thread) job False s"

subsection \<open>The pool and the thread-local caches\<close>

text \<open>Modelled from the spec: the pool allocator (module \<^verbatim>\<open>Tako.Allocators.PoolAllocator\<close> is
  imported, its source is absent). It serves fixed blocks: \<^verbatim>\<open>Allocate\<close> returns a free block,
  or null when none is left; \<^verbatim>\<open>Deallocate\<close> takes a block back.\<close>

definition pool_Allocate :: "jstate \<Rightarrow> addr option \<times> jstate" where
  "pool_Allocate s =
     (case pool s of
        [] \<Rightarrow> (None, emit (EvPoolAllocate None) s)
      | p # ps \<Rightarrow> (Some p, emit (EvPoolAllocate (Some p)) (s\<lparr>pool := ps\<rparr>)))"

definition pool_Deallocate :: "addr \<Rightarrow> jstate \<Rightarrow> jstate" where
  "pool_Deallocate a s = emit (EvPoolDeallocate a) (s\<lparr>pool := a # pool s\<rparr>)"

text \<open>\<^verbatim>\<open>std::destroy_at(job)\<close>: the record at the address is no more.\<close>

definition destroy_at :: "addr \<Rightarrow> jstate \<Rightarrow> jstate" where
  "destroy_at a s = s\<lparr>heap := (heap s)(a := None)\<rparr>"

text \<open>The \<^verbatim>\<open>while\<close> loop of \<^verbatim>\<open>AllocateJob\<close> over the free list, which is linked through
  \<^verbatim>\<open>m_parent\<close>. It returns \<^verbatim>\<open>prevJob\<close> and \<^verbatim>\<open>job\<close>. The fuel bounds the iterations.\<close>

fun scan_free ::
  "nat \<Rightarrow> jstate \<Rightarrow> 64 word \<Rightarrow> addr option \<Rightarrow> addr option \<Rightarrow> error + (addr option \<times> addr option)"
where
  "scan_free fuel s functorSize prevJob None = Inr (prevJob, None)"
| "scan_free fuel s functorSize prevJob (Some job) =
     (case heap s job of
        None \<Rightarrow> Inl NullDeref
      | Some j \<Rightarrow>
          if m_functorSize j < functorSize
          then (case fuel of
                  0 \<Rightarrow> Inl OutOfFuel
                | Suc n \<Rightarrow> scan_free n s functorSize (Some job) (m_parent j))
          else Inr (prevJob, Some job))"

text \<open>\<^verbatim>\<open>JobSystem::AllocateJob\<close>. \<open>sizeofJob\<close> is \<^verbatim>\<open>sizeof(Job)\<close>. A failed
  \<^verbatim>\<open>ASSERT(ptr)\<close> is \<open>AssertFailed\<close>.\<close>

definition AllocateJob ::
  "nat \<Rightarrow> 64 word \<Rightarrow> JobFunctor \<Rightarrow> jstate \<Rightarrow> error + (addr \<times> jstate)"
where
  "AllocateJob fuel sizeofJob func s =
     (let functorSize = max (fsize func) 24 in
      bindE (scan_free fuel s functorSize None (m_freeJobList s)) (\<lambda>(prevJob, found).
      bindE
        (case found of
           Some job \<Rightarrow>
             bindE (deref job s) (\<lambda>j.
             bindE (case prevJob of
                      Some p \<Rightarrow> set_parent p (m_parent j) s
                    | None \<Rightarrow> Inr (s\<lparr>m_freeJobList := m_parent j\<rparr>)) (\<lambda>s1.
             bindE (set_parent job None s1) (\<lambda>s2.
               Inr (job, s2\<lparr>m_freeJobListCount := m_freeJobListCount s2 - 1\<rparr>))))
         | None \<Rightarrow>
             (case pool_Allocate (emit EvLock s) of
                (ptr, s1) \<Rightarrow>
                  (case ptr of
                     None \<Rightarrow> Inl AssertFailed
                   | Some p \<Rightarrow> Inr (p, store p (Job_ctor (128 - sizeofJob)) (emit EvUnlock s1)))))
        (\<lambda>(job, s3). bindE (deref job s3) (\<lambda>j. Inr (job, store job (SetFunctor func j) s3)))))"

text \<open>\<^verbatim>\<open>JobSystem::DeallocateJob\<close>.\<close>

definition DeallocateJob :: "addr \<Rightarrow> jstate \<Rightarrow> error + jstate" where
  "DeallocateJob job s =
     bindE (deref job s) (\<lambda>j.
       let s1 = emit (EvReset job) (store job (Reset j) s) in
       if 100 \<le> m_freeJobListCount s1
       then bindE (set_parent job (m_deleteJobList s1) s1) (\<lambda>s2.
              Inr (s2\<lparr>m_deleteJobList := Some job,
                      m_deleteJobListCount := m_deleteJobListCount s2 + 1\<rparr>))
       else bindE (set_parent job (m_freeJobList s1) s1) (\<lambda>s2.
              Inr (s2\<lparr>m_freeJobList := Some job,
                      m_freeJobListCount := m_freeJobListCount s2 + 1\<rparr>)))"

text \<open>The \<^verbatim>\<open>while\<close> loop of \<^verbatim>\<open>DeleteOldJobs\<close>; the fuel bounds the iterations.\<close>

fun drain_delete :: "nat \<Rightarrow> jstate \<Rightarrow> error + jstate" where
  "drain_delete fuel s =
     (case m_deleteJobList s of
        None \<Rightarrow> Inr s
      | Some job \<Rightarrow>
          (case heap s job of
             None \<Rightarrow> Inl NullDeref
           | Some j \<Rightarrow>
               (case fuel of
                  0 \<Rightarrow> Inl OutOfFuel
                | Suc n \<Rightarrow>
                    drain_delete n
                      (pool_Deallocate job (destroy_at job (s\<lparr>m_deleteJobList := m_parent j\<rparr>))))))"

text \<open>\<^verbatim>\<open>JobSystem::DeleteOldJobs\<close>: the lock guard on \<^verbatim>\<open>m_allocMutex\<close> spans the body.\<close>

definition DeleteOldJobs :: "nat \<Rightarrow> jstate \<Rightarrow> error + jstate" where
  "DeleteOldJobs fuel s =
     bindE (drain_delete fuel (emit EvLock s)) (\<lambda>s1.
       Inr (emit EvUnlock (s1\<lparr>m_deleteJobListCount := 0\<rparr>)))"

subsection \<open>The completion protocol\<close>

definition fetch_sub :: "addr \<Rightarrow> jstate \<Rightarrow> error + (32 word \<times> jstate)" where
  "fetch_sub a s =
     bindE (deref a s) (\<lambda>j.
       Inr (m_jobsLeft j, emit (EvFetchSub a) (store a (j\<lparr>m_jobsLeft := m_jobsLeft j - 1\<rparr>) s)))"

text \<open>The block \<^verbatim>\<open>if (job->m_continuation) { ... }\<close> of \<^verbatim>\<open>OnJobDone\<close>. The increment and the
  write of \<^verbatim>\<open>m_parent\<close> leave \<^verbatim>\<open>job->m_continuation\<close> and \<^verbatim>\<open>job->m_parent\<close> as they
  were, so both are read once.\<close>

definition OnJobDone_continuation :: "addr \<Rightarrow> jstate \<Rightarrow> error + jstate" where
  "OnJobDone_continuation job s =
     bindE (deref job s) (\<lambda>j.
       case m_continuation j of
         None \<Rightarrow> Inr s
       | Some k \<Rightarrow>
           bindE (case m_parent j of
                    None \<Rightarrow> Inr s
                  | Some p \<Rightarrow> bindE (incr_jobsLeft p s) (set_parent k (Some p)))
             (\<lambda>s1. bindE (Schedule k s1) (\<lambda>(r, s2). Inr s2)))"

text \<open>\<^verbatim>\<open>JobSystem::OnJobDone\<close>. The recursion climbs the parent links; the fuel bounds its
  depth.\<close>

fun OnJobDone :: "nat \<Rightarrow> addr \<Rightarrow> jstate \<Rightarrow> error + jstate" where
  "OnJobDone fuel job s =
     (case fetch_sub job s of
        Inl e \<Rightarrow> Inl e
      | Inr (left, s1) \<Rightarrow>
          if left = 1
          then (case OnJobDone_continuation job s1 of
                  Inl e \<Rightarrow> Inl e
                | Inr s2 \<Rightarrow>
                    (case deref job s2 of
                       Inl e \<Rightarrow> Inl e
                     | Inr j2 \<Rightarrow>
                         (case (case m_parent j2 of
                                  None \<Rightarrow> Inr s2
                                | Some p \<Rightarrow>
                                    (case fuel of
                                       0 \<Rightarrow> Inl OutOfFuel
                                     | Suc n \<Rightarrow> OnJobDone n p s2)) of
                            Inl e \<Rightarrow> Inl e
                          | Inr s3 \<Rightarrow> DeallocateJob job s3)))
          else Inr s1)"

subsection \<open>Running jobs\<close>

text \<open>What a functor does when called is a parameter: it maps the state to a state, or
  fails.\<close>

type_synonym code = "JobFunctor \<Rightarrow> jstate \<Rightarrow> error + jstate"

text \<open>\<^verbatim>\<open>Job::operator()\<close>: the call goes through the inline storage, whatever
  \<^verbatim>\<open>m_functorActive\<close> says.\<close>

definition invoke :: "code \<Rightarrow> addr \<Rightarrow> jstate \<Rightarrow> error + jstate" where
  "invoke body job s =
     bindE (deref job s) (\<lambda>j.
       case m_functorData j of
         None \<Rightarrow> Inl BadCall
       | Some func \<Rightarrow> body func (emit (EvInvoke job) s))"

text \<open>\<^verbatim>\<open>JobSystem::ExecuteJob\<close>.\<close>

definition ExecuteJob :: "nat \<Rightarrow> code \<Rightarrow> addr \<Rightarrow> jstate \<Rightarrow> error + jstate" where
  "ExecuteJob fuel body job s =
     bindE (invoke body job s) (\<lambda>s1. OnJobDone fuel job (s1\<lparr>m_runningJob := None\<rparr>))"

text \<open>\<^verbatim>\<open>JobSystem::WaitFor\<close>: a wait on the condition variable of at most 1000 microseconds.\<close>

definition WaitFor :: "jstate \<Rightarrow> jstate" where
  "WaitFor s = emit EvWait s"

subsection \<open>The worker\<close>

text \<open>The \<^verbatim>\<open>for\<close> loop of \<^verbatim>\<open>Work\<close> over the global queues. \<^verbatim>\<open>i + m_threadIndex\<close> is
  an \<^verbatim>\<open>unsigned int\<close> sum.\<close>

function steal :: "nat \<Rightarrow> addr option \<Rightarrow> jstate \<Rightarrow> error + (addr option \<times> jstate)" where
  "steal i job s =
     (if job = None \<and> i < m_threadCount s
      then (case Pop (GlobalQ (((i + m_threadIndex s) mod 2 ^ 32) mod m_threadCount s)) s of
              Inl e \<Rightarrow> Inl e
            | Inr (job', s') \<Rightarrow> steal (i + 1) job' s')
      else Inr (job, s))"
  by pat_completeness auto
termination
  by (relation "measure (\<lambda>(i, job, s). m_threadCount s - i)")
     (auto simp: Pop_def emit_def split: if_splits list.splits)

text \<open>The first statements of \<^verbatim>\<open>Work\<close>: the pop of the own local queue, then the loop.\<close>

definition Work_pop :: "jstate \<Rightarrow> error + (addr option \<times> jstate)" where
  "Work_pop s =
     bindE (Pop (LocalQ (m_threadIndex s)) s) (\<lambda>(job0, s0). steal 0 job0 s0)"

text \<open>\<^verbatim>\<open>JobSystem::Work\<close>.\<close>

definition Work :: "nat \<Rightarrow> code \<Rightarrow> jstate \<Rightarrow> error + (bool \<times> jstate)" where
  "Work fuel body s =
     bindE (Work_pop s) (\<lambda>(job, s1).
       let s2 = s1\<lparr>m_runningJob := job\<rparr> in
       case job of
         Some j \<Rightarrow> bindE (ExecuteJob fuel body j s2) (\<lambda>s3. Inr (True, s3))
       | None \<Rightarrow>
           (case m_deleteJobList s2 of
              Some d \<Rightarrow> bindE (DeleteOldJobs fuel s2) (\<lambda>s3. Inr (False, s3))
            | None \<Rightarrow> Inr (True, s2)))"

text \<open>One turn of the loop of \<^verbatim>\<open>WorkerThread\<close>: \<^verbatim>\<open>if (Work()) { WaitFor(); }\<close>.\<close>

definition WorkerThread_turn :: "nat \<Rightarrow> code \<Rightarrow> jstate \<Rightarrow> error + jstate" where
  "WorkerThread_turn fuel body s =
     bindE (Work fuel body s) (\<lambda>(worked, s1). Inr (if worked then WaitFor s1 else s1))"

text \<open>The loop \<^verbatim>\<open>while (!m_stop)\<close>; the fuel bounds its turns.\<close>

fun WorkerThread_loop :: "nat \<Rightarrow> code \<Rightarrow> jstate \<Rightarrow> error + jstate" where
  "WorkerThread_loop fuel body s =
     (if \<not> m_stop s
      then (case fuel of
              0 \<Rightarrow> Inl OutOfFuel
            | Suc n \<Rightarrow>
                (case WorkerThread_turn n body s of
                   Inl e \<Rightarrow> Inl e
                 | Inr s1 \<Rightarrow> WorkerThread_loop n body s1))
      else Inr s)"

text \<open>\<^verbatim>\<open>JobSystem::WorkerThread\<close>.\<close>

definition WorkerThread :: "nat \<Rightarrow> code \<Rightarrow> nat \<Rightarrow> jstate \<Rightarrow> error + jstate" where
  "WorkerThread fuel body threadIndex s =
     WorkerThread_loop fuel body (s\<lparr>m_threadIndex := threadIndex\<rparr>)"

subsection \<open>Submission of functors\<close>

text \<open>\<^verbatim>\<open>Schedule(Functor&&)\<close>.\<close>

definition Schedule_functor ::
  "nat \<Rightarrow> 64 word \<Rightarrow> JobFunctor \<Rightarrow> jstate \<Rightarrow> error + (addr \<times> jstate)"
where
  "Schedule_functor fuel sizeofJob func s =
     bindE (AllocateJob fuel sizeofJob func s) (\<lambda>(allocatedJob, s1). Schedule allocatedJob s1)"


text \<open>\<^verbatim>\<open>ScheduleForThread(unsigned int, Functor&&)\<close>.\<close>

definition ScheduleForThread_functor ::
  "nat \<Rightarrow> 64 word \<Rightarrow> nat \<Rightarrow> JobFunctor \<Rightarrow> jstate \<Rightarrow> error + (addr \<times> jstate)"
where
  "ScheduleForThread_functor fuel sizeofJob thread func s =
     bindE (AllocateJob fuel sizeofJob func s) (\<lambda>(allocatedJob, s1).
       ScheduleForThread thread allocatedJob s1)"


subsection \<open>RunJob\<close>

text \<open>The inner loop \<^verbatim>\<open>while (job->m_jobsLeft > 1) { Work(); WaitFor(); }\<close>, a signed
  comparison; the fuel bounds its turns.\<close>

fun RunJob_wait :: "nat \<Rightarrow> code \<Rightarrow> addr \<Rightarrow> jstate \<Rightarrow> error + jstate" where
  "RunJob_wait fuel body job s =
     (case heap s job of
        None \<Rightarrow> Inl NullDeref
      | Some j \<Rightarrow>
          if 1 < sint (m_jobsLeft j)
          then (case fuel of
                  0 \<Rightarrow> Inl OutOfFuel
                | Suc n \<Rightarrow>
                    (case Work n body s of
                       Inl e \<Rightarrow> Inl e
                     | Inr (worked, s1) \<Rightarrow> RunJob_wait n body job (WaitFor s1)))
          else Inr s)"



section \<open>Predicates and sample states\<close>

text \<open>A record as \<^verbatim>\<open>DeallocateJob\<close> leaves it on a list: reset, with \<^verbatim>\<open>m_parent\<close> free to
  serve as the link.\<close>

definition is_reset :: "Job \<Rightarrow> bool" where
  "is_reset j \<longleftrightarrow> m_continuation j = None \<and> m_jobsLeft j = 1 \<and> \<not> m_functorActive j"

text \<open>What is looked at in a state: the records at some addresses, the queues, the effects.\<close>

definition snapshot ::
  "addr list \<Rightarrow> jstate \<Rightarrow> Job option list \<times> addr list list \<times> addr list list \<times> event list" where
  "snapshot as s = (map (heap s) as, m_localQueues s, m_globalQueues s, trace s)"

text \<open>Sample records and states: blocks of 128 bytes with a header of 32, two workers,
  the caller is worker 0.\<close>

definition small_functor :: "nat \<Rightarrow> JobFunctor" where
  "small_functor c = \<lparr>fsize = 24, fcode = c\<rparr>"

definition live_job :: "addr option \<Rightarrow> addr option \<Rightarrow> 32 word \<Rightarrow> nat \<Rightarrow> Job" where
  "live_job par cont left c =
     \<lparr>m_parent = par, m_continuation = cont, m_functorActive = True, m_jobsLeft = left,
      m_functorSize = 96, m_functorData = Some (small_functor c)\<rparr>"

definition two_workers :: jstate where
  "two_workers =
     \<lparr>heap = Map.empty, m_localQueues = [[], []], m_globalQueues = [[], []], m_stop = False,
      m_runningJob = None, m_threadIndex = 0, m_freeJobList = None, m_freeJobListCount = 0,
      m_deleteJobList = None, m_deleteJobListCount = 0, m_threadCount = 2,
      pool = [10, 11, 12, 13], trace = []\<rparr>"

definition running_state :: jstate where
  "running_state =
     two_workers\<lparr>heap := [0 \<mapsto> live_job None None 1 0, 1 \<mapsto> live_job None None 1 1],
                 m_runningJob := Some 0\<rparr>"

definition reset_job :: "addr option \<Rightarrow> Job" where
  "reset_job link =
     \<lparr>m_parent = link, m_continuation = None, m_functorActive = False, m_jobsLeft = 1,
      m_functorSize = 96, m_functorData = None\<rparr>"


definition family_state :: jstate where
  "family_state =
     two_workers\<lparr>heap := [0 \<mapsto> live_job None None 2 0,
                          1 \<mapsto> live_job (Some 0) (Some 2) 1 1,
                          2 \<mapsto> live_job None None 1 2]\<rparr>"

text \<open>A functor body that does nothing to the scheduler.\<close>

definition no_effect :: code where
  "no_effect func s = Inr s"

definition last_child_state :: jstate where
  "last_child_state =
     two_workers\<lparr>heap := [0 \<mapsto> live_job None None 1 0,
                          1 \<mapsto> live_job (Some 0) (Some 2) 1 1,
                          2 \<mapsto> live_job None None 1 2]\<rparr>"

definition continuation_queued_state :: jstate where
  "continuation_queued_state =
     two_workers
       \<lparr>heap := [2 \<mapsto> live_job (Some 0) None 1 2, 0 \<mapsto> live_job None None 1 0,
                 1 \<mapsto> reset_job None],
        m_globalQueues := [[2], []],
        m_freeJobList := Some 1, m_freeJobListCount := 1,
        trace := [EvFetchSub 1, EvIncr 0, EvSetParent 2 (Some 0), EvPush (GlobalQ 0) 2, EvNotify,
                  EvFetchSub 0, EvReset 1, EvSetParent 1 None]\<rparr>"

text \<open>A worker whose index and queue vectors are as \<^verbatim>\<open>Init\<close> and \<^verbatim>\<open>WorkerThread\<close> set
  them: one local and one global queue per thread, the index below the thread count. \<^verbatim>\<open>Init\<close>
  holds the worker indices in an \<^verbatim>\<open>int\<close>, so the count is at most \<open>2 ^ 31\<close>.\<close>

definition valid_worker :: "jstate \<Rightarrow> bool" where
  "valid_worker s \<longleftrightarrow>
     m_threadIndex s < m_threadCount s \<and> length (m_localQueues s) = m_threadCount s \<and>
     length (m_globalQueues s) = m_threadCount s \<and> m_threadCount s \<le> 2 ^ 31"

text \<open>The order of the spec for the global queues: \<open>(threadIndex + i) mod N\<close> for
  \<open>i = 0 .. N - 1\<close>.\<close>

definition steal_order :: "nat \<Rightarrow> nat \<Rightarrow> nat list" where
  "steal_order threadIndex n = map (\<lambda>i. (threadIndex + i) mod n) [0..<n]"

text \<open>In the words of the spec: pop the queues of a list in turn until one gives a job.\<close>

fun pop_first :: "nat list \<Rightarrow> jstate \<Rightarrow> addr option \<times> jstate" where
  "pop_first [] s = (None, s)"
| "pop_first (q # qs) s =
     (case m_globalQueues s ! q of
        [] \<Rightarrow> pop_first qs (s\<lparr>trace := trace s @ [EvPop (GlobalQ q) None]\<rparr>)
      | job # rest \<Rightarrow>
          (Some job, s\<lparr>m_globalQueues := (m_globalQueues s)[q := rest],
                        trace := trace s @ [EvPop (GlobalQ q) (Some job)]\<rparr>))"

text \<open>In the words of the spec: pop the local queue of the own index; only if it is empty,
  pop the global queues in the order above.\<close>

definition spec_Work_pop :: "jstate \<Rightarrow> addr option \<times> jstate" where
  "spec_Work_pop s =
     (case m_localQueues s ! m_threadIndex s of
        job # rest \<Rightarrow>
          (Some job, s\<lparr>m_localQueues := (m_localQueues s)[m_threadIndex s := rest],
                        trace := trace s @ [EvPop (LocalQ (m_threadIndex s)) (Some job)]\<rparr>)
      | [] \<Rightarrow>
          pop_first (steal_order (m_threadIndex s) (m_threadCount s))
            (s\<lparr>trace := trace s @ [EvPop (LocalQ (m_threadIndex s)) None]\<rparr>))"

definition stealing_state :: jstate where
  "stealing_state =
     \<lparr>heap = [7 \<mapsto> live_job None None 1 7, 8 \<mapsto> live_job None None 1 8],
      m_localQueues = [[], [], []], m_globalQueues = [[7], [], [8]], m_stop = False,
      m_runningJob = None, m_threadIndex = 1, m_freeJobList = None, m_freeJobListCount = 0,
      m_deleteJobList = None, m_deleteJobListCount = 0, m_threadCount = 3,
      pool = [10, 11, 12, 13], trace = []\<rparr>"


text \<open>The blocks given back to the pool, as a trace records them.\<close>

fun returned :: "event list \<Rightarrow> addr list" where
  "returned [] = []"
| "returned (EvPoolDeallocate a # es) = a # returned es"
| "returned (e # es) = returned es"






section \<open>Basic facts\<close>

declare OnJobDone.simps [simp del] drain_delete.simps [simp del] steal.simps [simp del]
  WorkerThread_loop.simps [simp del] RunJob_wait.simps [simp del]

lemma bindE_Inl [simp]: "bindE (Inl e) f = Inl e"
  by (simp add: bindE_def)

lemma bindE_Inr [simp]: "bindE (Inr x) f = f x"
  by (simp add: bindE_def)

lemma bindE_eq_Inr: "bindE m f = Inr y \<longleftrightarrow> (\<exists>x. m = Inr x \<and> f x = Inr y)"
  by (cases m) simp_all

lemma deref_Some [simp]: "heap s a = Some j \<Longrightarrow> deref a s = Inr j"
  by (simp add: deref_def)

lemma deref_eq_Inr: "deref a s = Inr j \<longleftrightarrow> heap s a = Some j"
  by (simp add: deref_def split: option.splits)

lemma set_parent_eq_Inr:
  "set_parent a p s = Inr s' \<longleftrightarrow>
     (\<exists>j. heap s a = Some j \<and> s' = s\<lparr>heap := (heap s)(a \<mapsto> j\<lparr>m_parent := p\<rparr>), trace := trace s @ [EvSetParent a p]\<rparr>)"
  by (auto simp: set_parent_def deref_def emit_def store_def split: option.splits)

lemma scan_free_found:
  "scan_free fuel s need prev cur = Inr (p, Some a) \<Longrightarrow>
     (\<exists>j. heap s a = Some j \<and> \<not> m_functorSize j < need) \<and>
     (p \<noteq> prev \<longrightarrow> (\<exists>q qj. p = Some q \<and> heap s q = Some qj \<and> m_functorSize qj < need))"
proof (induction fuel s need prev cur rule: scan_free.induct)
  case (1 fuel s functorSize prevJob)
  then show ?case by simp
next
  case (2 fuel s functorSize prevJob job)
  then show ?case
    by (auto split: option.splits if_splits nat.splits)
qed

lemma AllocateJob_fields:
  assumes "AllocateJob fuel sizeofJob func s = Inr (job, s')"
  shows "\<exists>j'. heap s' job = Some j' \<and> m_parent j' = None \<and> m_functorActive j'
           \<and> m_functorData j' = Some func
           \<and> (\<forall>j. heap s job = Some j \<and> is_reset j \<longrightarrow> m_continuation j' = None \<and> m_jobsLeft j' = 1)
           \<and> (heap s job = None \<longrightarrow> m_continuation j' = None \<and> m_jobsLeft j' = 1)"
proof -
  let ?need = "max (fsize func) 24"
  from assms obtain prev found where
    scan: "scan_free fuel s ?need None (m_freeJobList s) = Inr (prev, found)"
    by (auto simp: AllocateJob_def Let_def bindE_eq_Inr)
  show ?thesis
  proof (cases found)
    case None
    with assms scan show ?thesis
      by (auto simp: AllocateJob_def Let_def pool_Allocate_def emit_def store_def deref_def
          Job_ctor_def Reset_def SetFunctor_def is_reset_def
          split: list.splits option.splits if_splits)
  next
    case (Some a)
    with scan_free_found[of fuel s ?need None "m_freeJobList s" prev a] scan
    obtain j where ja: "heap s a = Some j" by auto
    from assms scan Some ja show ?thesis
      by (auto simp: AllocateJob_def Let_def set_parent_eq_Inr bindE_eq_Inr store_def deref_eq_Inr
          SetFunctor_def is_reset_def
          split: option.splits if_splits)
  qed
qed


lemma AllocateJob_frame:
  assumes "AllocateJob fuel sizeofJob func s = Inr (job, s')"
  shows "m_runningJob s' = m_runningJob s \<and> m_threadIndex s' = m_threadIndex s
       \<and> m_globalQueues s' = m_globalQueues s \<and> m_localQueues s' = m_localQueues s
       \<and> m_threadCount s' = m_threadCount s \<and> m_deleteJobList s' = m_deleteJobList s
       \<and> m_stop s' = m_stop s
       \<and> (\<forall>a. a \<noteq> job \<longrightarrow> map_option m_jobsLeft (heap s' a) = map_option m_jobsLeft (heap s a))"
proof -
  let ?need = "max (fsize func) 24"
  from assms obtain prev found where
    scan: "scan_free fuel s ?need None (m_freeJobList s) = Inr (prev, found)"
    by (auto simp: AllocateJob_def Let_def bindE_eq_Inr)
  show ?thesis
  proof (cases found)
    case None
    with assms scan show ?thesis
      by (auto simp: AllocateJob_def Let_def pool_Allocate_def emit_def store_def deref_def
          split: list.splits option.splits if_splits)
  next
    case (Some a)
    with scan_free_found[of fuel s ?need None "m_freeJobList s" prev a] scan
    obtain j where ja: "heap s a = Some j" by auto
    from assms scan Some ja show ?thesis
      by (auto simp: AllocateJob_def Let_def set_parent_eq_Inr bindE_eq_Inr store_def deref_eq_Inr
          split: option.splits if_splits)
  qed
qed


lemma DeallocateJob_Some:
  assumes "heap s job = Some j"
  shows "DeallocateJob job s =
     Inr (if 100 \<le> m_freeJobListCount s
          then s\<lparr>heap := (heap s)(job \<mapsto> (Reset j)\<lparr>m_parent := m_deleteJobList s\<rparr>),
                 m_deleteJobList := Some job,
                 m_deleteJobListCount := m_deleteJobListCount s + 1,
                 trace := trace s @ [EvReset job, EvSetParent job (m_deleteJobList s)]\<rparr>
          else s\<lparr>heap := (heap s)(job \<mapsto> (Reset j)\<lparr>m_parent := m_freeJobList s\<rparr>),
                 m_freeJobList := Some job,
                 m_freeJobListCount := m_freeJobListCount s + 1,
                 trace := trace s @ [EvReset job, EvSetParent job (m_freeJobList s)]\<rparr>)"
  using assms
  by (simp add: DeallocateJob_def Let_def set_parent_def emit_def store_def deref_def)

lemma DeallocateJob_None: "heap s job = None \<Longrightarrow> DeallocateJob job s = Inl NullDeref"
  by (simp add: DeallocateJob_def deref_def)

lemma DeallocateJob_leaves_reset:
  assumes "DeallocateJob job s = Inr s'"
  shows "\<exists>j. heap s' job = Some j \<and> is_reset j"
proof (cases "heap s job")
  case None
  with assms show ?thesis by (simp add: DeallocateJob_None)
next
  case (Some j)
  have r: "is_reset ((Reset j)\<lparr>m_parent := p\<rparr>)" for p
    by (simp add: Reset_def is_reset_def)
  show ?thesis
  proof (cases "100 \<le> m_freeJobListCount s")
    case True
    with assms DeallocateJob_Some[OF Some] have "heap s' job = Some ((Reset j)\<lparr>m_parent := m_deleteJobList s\<rparr>)"
      by auto
    with r show ?thesis by blast
  next
    case False
    with assms DeallocateJob_Some[OF Some] have "heap s' job = Some ((Reset j)\<lparr>m_parent := m_freeJobList s\<rparr>)"
      by auto
    with r show ?thesis by blast
  qed
qed

lemma fetch_sub_Some:
  assumes "heap s a = Some j"
  shows "fetch_sub a s =
     Inr (m_jobsLeft j,
          s\<lparr>heap := (heap s)(a \<mapsto> j\<lparr>m_jobsLeft := m_jobsLeft j - 1\<rparr>),
            trace := trace s @ [EvFetchSub a]\<rparr>)"
  using assms by (simp add: fetch_sub_def emit_def store_def)

lemma OnJobDone_unfinished:
  assumes "heap s job = Some j" and "m_jobsLeft j \<noteq> 1"
  shows "OnJobDone fuel job s =
     Inr (s\<lparr>heap := (heap s)(job \<mapsto> j\<lparr>m_jobsLeft := m_jobsLeft j - 1\<rparr>),
            trace := trace s @ [EvFetchSub job]\<rparr>)"
  using assms by (subst OnJobDone.simps) (simp add: fetch_sub_Some)

lemma Schedule_no_running:
  assumes "m_runningJob s = None" and "m_threadIndex s < length (m_globalQueues s)"
  shows "Schedule k s =
     Inr (k, s\<lparr>m_globalQueues := (m_globalQueues s)
                   [m_threadIndex s := m_globalQueues s ! m_threadIndex s @ [k]],
                trace := trace s @ [EvPush (GlobalQ (m_threadIndex s)) k, EvNotify]\<rparr>)"
  using assms by (simp add: Schedule_def ScheduleRaw_def Push_def emit_def)

lemma hundred_not_le_one [simp]: "\<not> (100::64 word) \<le> 1"
  by (simp add: word_le_nat_alt)

lemma steal_Some: "steal i (Some j) s = Inr (Some j, s)"
  by (subst steal.simps) simp

lemma steal_end: "\<not> i < m_threadCount s \<Longrightarrow> steal i None s = Inr (None, s)"
  by (subst steal.simps) simp

lemma Pop_GlobalQ:
  assumes "q < length (m_globalQueues s)"
  shows "Pop (GlobalQ q) s =
     Inr (case m_globalQueues s ! q of
            [] \<Rightarrow> (None, s\<lparr>trace := trace s @ [EvPop (GlobalQ q) None]\<rparr>)
          | job # rest \<Rightarrow>
              (Some job, s\<lparr>m_globalQueues := (m_globalQueues s)[q := rest],
                            trace := trace s @ [EvPop (GlobalQ q) (Some job)]\<rparr>))"
  using assms by (simp add: Pop_def emit_def split: list.splits)

lemma Pop_LocalQ:
  assumes "q < length (m_localQueues s)"
  shows "Pop (LocalQ q) s =
     Inr (case m_localQueues s ! q of
            [] \<Rightarrow> (None, s\<lparr>trace := trace s @ [EvPop (LocalQ q) None]\<rparr>)
          | job # rest \<Rightarrow>
              (Some job, s\<lparr>m_localQueues := (m_localQueues s)[q := rest],
                            trace := trace s @ [EvPop (LocalQ q) (Some job)]\<rparr>))"
  using assms by (simp add: Pop_def emit_def split: list.splits)

lemma steal_index:
  assumes "valid_worker s" and "i < m_threadCount s"
  shows "((i + m_threadIndex s) mod 2 ^ 32) mod m_threadCount s = (m_threadIndex s + i) mod m_threadCount s"
proof -
  from assms have "i + m_threadIndex s < 2 ^ 31 + 2 ^ 31"
    unfolding valid_worker_def by linarith
  then have "i + m_threadIndex s < 2 ^ 32" by simp
  then show ?thesis by (simp add: add.commute)
qed

lemma steal_pop_first:
  assumes "valid_worker s" and "i \<le> m_threadCount s"
  shows "steal i None s =
     Inr (pop_first (map (\<lambda>k. (m_threadIndex s + k) mod m_threadCount s) [i..<m_threadCount s]) s)"
  using assms
proof (induction "m_threadCount s - i" arbitrary: i s)
  case 0
  then show ?case by (simp add: steal_end)
next
  case (Suc d)
  let ?n = "m_threadCount s"
  let ?q = "(m_threadIndex s + i) mod ?n"
  from Suc.hyps(2) have lt: "i < ?n" by simp
  then have upt: "[i..<?n] = i # [Suc i..<?n]" by (simp add: upt_conv_Cons)
  from Suc.prems lt have q: "?q < length (m_globalQueues s)"
    by (simp add: valid_worker_def)
  have unf: "steal i None s =
      (case Pop (GlobalQ ?q) s of Inl e \<Rightarrow> Inl e | Inr (job', s') \<Rightarrow> steal (i + 1) job' s')"
    using lt steal_index[OF Suc.prems(1) lt] by (subst steal.simps) simp
  show ?case
  proof (cases "m_globalQueues s ! ?q")
    case Nil
    let ?s' = "s\<lparr>trace := trace s @ [EvPop (GlobalQ ?q) None]\<rparr>"
    have v: "valid_worker ?s'" using Suc.prems(1) by (simp add: valid_worker_def)
    have d: "d = m_threadCount ?s' - Suc i" using Suc.hyps(2) by simp
    have le: "Suc i \<le> m_threadCount ?s'" using lt by simp
    from Suc.hyps(1)[OF d v le] Nil unf upt show ?thesis
      by (simp add: Pop_GlobalQ[OF q])
  next
    case (Cons job rest)
    with unf upt show ?thesis
      by (simp add: Pop_GlobalQ[OF q] steal_Some)
  qed
qed

lemma Work_pop_spec:
  assumes "valid_worker s"
  shows "Work_pop s = Inr (spec_Work_pop s)"
proof -
  from assms have l: "m_threadIndex s < length (m_localQueues s)"
    by (simp add: valid_worker_def)
  show ?thesis
  proof (cases "m_localQueues s ! m_threadIndex s")
    case Nil
    let ?s' = "s\<lparr>trace := trace s @ [EvPop (LocalQ (m_threadIndex s)) None]\<rparr>"
    have v: "valid_worker ?s'" using assms by (simp add: valid_worker_def)
    from steal_pop_first[OF v, of 0] Nil show ?thesis
      by (simp add: Work_pop_def Pop_LocalQ[OF l] spec_Work_pop_def steal_order_def)
  next
    case (Cons job rest)
    then show ?thesis
      by (simp add: Work_pop_def Pop_LocalQ[OF l] spec_Work_pop_def steal_Some)
  qed
qed




lemma returned_append [simp]: "returned (xs @ ys) = returned xs @ returned ys"
  by (induction xs rule: returned.induct) simp_all

lemma returned_map [simp]: "returned (map EvPoolDeallocate xs) = xs"
  by (induction xs) simp_all
























lemma OnJobDone_leaf:
  assumes "heap s job = Some j" and "m_jobsLeft j = 1" and "m_continuation j = None"
    and "m_parent j = None"
  shows "OnJobDone fuel job s =
     DeallocateJob job
        (s\<lparr>heap := (heap s)(job \<mapsto> j\<lparr>m_jobsLeft := 0\<rparr>),
           trace := trace s @ [EvFetchSub job]\<rparr>)"
  using assms
  by (subst OnJobDone.simps) (simp add: fetch_sub_Some OnJobDone_continuation_def)

lemma OnJobDone_bubble:
  assumes "heap s job = Some j" and "m_jobsLeft j = 1" and "m_continuation j = None"
    and "m_parent j = Some p"
  shows "OnJobDone (Suc fuel) job s =
     bindE (OnJobDone fuel p
        (s\<lparr>heap := (heap s)(job \<mapsto> j\<lparr>m_jobsLeft := 0\<rparr>),
           trace := trace s @ [EvFetchSub job]\<rparr>))
       (DeallocateJob job)"
  using assms
  by (subst OnJobDone.simps) (simp add: fetch_sub_Some OnJobDone_continuation_def bindE_def)

section \<open>Claims on submission\<close>

text \<open>C2: a call of \<^verbatim>\<open>Schedule\<close> while a job \<open>r\<close> is running, for a job without parent:
  the counter of \<open>r\<close> is incremented, then the parent of the job is set to \<open>r\<close>, then the job
  is pushed to the global queue of the current worker, then the condition variable is
  notified, and the job is returned. The first part is \<^verbatim>\<open>Schedule(Job*)\<close>, the second
  \<^verbatim>\<open>Schedule(Functor&&)\<close>, whose job comes from \<^verbatim>\<open>AllocateJob\<close> and so has no parent.\<close>

theorem Schedule_adopts_running_job:
  assumes run: "m_runningJob s = Some r"
    and idx: "m_threadIndex s < length (m_globalQueues s)"
  shows "(heap s r = Some rj \<and> heap s job = Some j \<and> m_parent j = None \<longrightarrow>
      Schedule job s =
       Inr (job,
         s\<lparr>heap := (heap s)
              (r \<mapsto> rj\<lparr>m_jobsLeft := m_jobsLeft rj + 1\<rparr>,
               job \<mapsto> (if job = r then rj\<lparr>m_jobsLeft := m_jobsLeft rj + 1\<rparr> else j)
                         \<lparr>m_parent := Some r\<rparr>),
           m_globalQueues := (m_globalQueues s)
              [m_threadIndex s := m_globalQueues s ! m_threadIndex s @ [job]],
           trace := trace s @ [EvIncr r, EvSetParent job (Some r),
                               EvPush (GlobalQ (m_threadIndex s)) job, EvNotify]\<rparr>))
    \<and> (AllocateJob fuel sizeofJob func s = Inr (job', s1) \<and> heap s1 r = Some rj'
         \<and> heap s1 job' = Some j' \<and> r \<noteq> job' \<longrightarrow>
      Schedule_functor fuel sizeofJob func s =
       Inr (job',
         s1\<lparr>heap := (heap s1)
              (r \<mapsto> rj'\<lparr>m_jobsLeft := m_jobsLeft rj' + 1\<rparr>,
               job' \<mapsto> j'\<lparr>m_parent := Some r\<rparr>),
           m_globalQueues := (m_globalQueues s)
              [m_threadIndex s := m_globalQueues s ! m_threadIndex s @ [job']],
           trace := trace s1 @ [EvIncr r, EvSetParent job' (Some r),
                               EvPush (GlobalQ (m_threadIndex s)) job', EvNotify]\<rparr>))"
proof (intro conjI impI)
  assume "heap s r = Some rj \<and> heap s job = Some j \<and> m_parent j = None"
  with run idx show "Schedule job s =
       Inr (job,
         s\<lparr>heap := (heap s)
              (r \<mapsto> rj\<lparr>m_jobsLeft := m_jobsLeft rj + 1\<rparr>,
               job \<mapsto> (if job = r then rj\<lparr>m_jobsLeft := m_jobsLeft rj + 1\<rparr> else j)
                         \<lparr>m_parent := Some r\<rparr>),
           m_globalQueues := (m_globalQueues s)
              [m_threadIndex s := m_globalQueues s ! m_threadIndex s @ [job]],
           trace := trace s @ [EvIncr r, EvSetParent job (Some r),
                               EvPush (GlobalQ (m_threadIndex s)) job, EvNotify]\<rparr>)"
    by (simp add: Schedule_def ScheduleRaw_def incr_jobsLeft_def set_parent_def Push_def
        emit_def store_def deref_def)
next
  assume a: "AllocateJob fuel sizeofJob func s = Inr (job', s1) \<and> heap s1 r = Some rj'
         \<and> heap s1 job' = Some j' \<and> r \<noteq> job'"
  then have alloc: "AllocateJob fuel sizeofJob func s = Inr (job', s1)" by simp
  from AllocateJob_fields[OF alloc] a have par: "m_parent j' = None" by auto
  note fr = AllocateJob_frame[OF alloc]
  from a par run idx fr show "Schedule_functor fuel sizeofJob func s =
       Inr (job',
         s1\<lparr>heap := (heap s1)
              (r \<mapsto> rj'\<lparr>m_jobsLeft := m_jobsLeft rj' + 1\<rparr>,
               job' \<mapsto> j'\<lparr>m_parent := Some r\<rparr>),
           m_globalQueues := (m_globalQueues s)
              [m_threadIndex s := m_globalQueues s ! m_threadIndex s @ [job']],
           trace := trace s1 @ [EvIncr r, EvSetParent job' (Some r),
                               EvPush (GlobalQ (m_threadIndex s)) job', EvNotify]\<rparr>)"
    by (simp add: Schedule_functor_def Schedule_def ScheduleRaw_def incr_jobsLeft_def
        set_parent_def Push_def emit_def store_def deref_def)
qed

theorem Schedule_adopts_running_job_witness:
  "Schedule 1 running_state =
     Inr (1, running_state
       \<lparr>heap := [0 \<mapsto> live_job None None 2 0, 1 \<mapsto> live_job (Some 0) None 1 1],
        m_globalQueues := [[1], []],
        trace := [EvIncr 0, EvSetParent 1 (Some 0), EvPush (GlobalQ 0) 1, EvNotify]\<rparr>)
   \<and> map_sum id (\<lambda>(a, s). (a, snapshot [0, 10] s))
        (Schedule_functor 0 32 (small_functor 7) running_state) =
     Inr (10, [Some (live_job None None 2 0), Some (live_job (Some 0) None 1 7)],
          [[], []], [[10], []],
          [EvLock, EvPoolAllocate (Some 10), EvUnlock, EvIncr 0, EvSetParent 10 (Some 0),
           EvPush (GlobalQ 0) 10, EvNotify])"
proof -
  have r: "m_runningJob running_state = Some 0"
    and i: "m_threadIndex running_state < length (m_globalQueues running_state)"
    by (simp_all add: running_state_def two_workers_def)
  obtain s1 where a: "AllocateJob 0 32 (small_functor 7) running_state = Inr (10, s1)"
    and s1: "heap s1 0 = Some (live_job None None 1 0)" "heap s1 10 = Some (live_job None None 1 7)"
      "snapshot [] s1 = ([], [[], []], [[], []], [EvLock, EvPoolAllocate (Some 10), EvUnlock])"
    by (simp add: AllocateJob_def running_state_def two_workers_def small_functor_def
        pool_Allocate_def emit_def store_def deref_def Job_ctor_def Reset_def SetFunctor_def
        live_job_def snapshot_def)
  from Schedule_adopts_running_job[OF r i, of "live_job None None 1 0" 1 "live_job None None 1 1"
      0 32 "small_functor 7" 10 s1 "live_job None None 1 0" "live_job None None 1 7"] a s1
  show ?thesis
    by (simp add: running_state_def two_workers_def live_job_def snapshot_def)
qed



section \<open>Claims on allocation\<close>



text \<open>C5: a functor of 200 bytes, a block with room for 96: no size is compared on the way
  from the pool, the functor is constructed in the storage and the job is queued.\<close>

theorem AllocateJob_accepts_oversized_functor:
  "AllocateJob 0 32 \<lparr>fsize = 200, fcode = 0\<rparr> two_workers =
     Inr (10, two_workers
       \<lparr>heap := [10 \<mapsto> \<lparr>m_parent = None, m_continuation = None, m_functorActive = True,
                        m_jobsLeft = 1, m_functorSize = 96,
                        m_functorData = Some \<lparr>fsize = 200, fcode = 0\<rparr>\<rparr>],
        pool := [11, 12, 13],
        trace := [EvLock, EvPoolAllocate (Some 10), EvUnlock]\<rparr>)
   \<and> Schedule_functor 0 32 \<lparr>fsize = 200, fcode = 0\<rparr> two_workers =
     Inr (10, two_workers
       \<lparr>heap := [10 \<mapsto> \<lparr>m_parent = None, m_continuation = None, m_functorActive = True,
                        m_jobsLeft = 1, m_functorSize = 96,
                        m_functorData = Some \<lparr>fsize = 200, fcode = 0\<rparr>\<rparr>],
        m_globalQueues := [[10], []],
        pool := [11, 12, 13],
        trace := [EvLock, EvPoolAllocate (Some 10), EvUnlock, EvPush (GlobalQ 0) 10, EvNotify]\<rparr>)"
  by (simp add: Schedule_functor_def Schedule_def ScheduleRaw_def Push_def
      AllocateJob_def two_workers_def pool_Allocate_def
      emit_def store_def deref_def Job_ctor_def Reset_def SetFunctor_def)

section \<open>Claims on the completion protocol\<close>

text \<open>C1: \<^verbatim>\<open>OnJobDone\<close> on a job \<open>J\<close>, called as the source calls it, with no job
  running. It subtracts 1 from the counter of \<open>J\<close>. If the value before was not 1, this is all.
  If it was 1: with a continuation \<open>K\<close> and a parent \<open>P\<close>, the counter of \<open>P\<close> is incremented,
  the parent of \<open>K\<close> is set to \<open>P\<close>, and \<open>K\<close> is pushed to the global queue of the current
  worker with a notification; with a continuation and no parent, \<open>K\<close> is pushed alone; then the
  protocol runs on the parent, if any; then \<open>J\<close> is reset and recycled by
  \<^verbatim>\<open>DeallocateJob\<close>. The fuel counts the parents still to climb.\<close>

theorem OnJobDone_protocol:
  assumes hj: "heap s job = Some j"
    and run: "m_runningJob s = None"
    and idx: "m_threadIndex s < length (m_globalQueues s)"
  shows "(m_jobsLeft j \<noteq> 1 \<longrightarrow>
       OnJobDone fuel job s =
         Inr (s\<lparr>heap := (heap s)(job \<mapsto> j\<lparr>m_jobsLeft := m_jobsLeft j - 1\<rparr>),
                trace := trace s @ [EvFetchSub job]\<rparr>))
   \<and> (m_jobsLeft j = 1 \<and> m_continuation j = Some k \<and> m_parent j = Some p
        \<and> heap s p = Some pj \<and> heap s k = Some kj \<and> p \<noteq> job \<and> k \<noteq> job \<and> k \<noteq> p \<longrightarrow>
       OnJobDone (Suc fuel) job s =
         bindE (OnJobDone fuel p
            (s\<lparr>heap := (heap s)(job \<mapsto> j\<lparr>m_jobsLeft := 0\<rparr>,
                                 p \<mapsto> pj\<lparr>m_jobsLeft := m_jobsLeft pj + 1\<rparr>,
                                 k \<mapsto> kj\<lparr>m_parent := Some p\<rparr>),
               m_globalQueues := (m_globalQueues s)
                   [m_threadIndex s := m_globalQueues s ! m_threadIndex s @ [k]],
               trace := trace s @ [EvFetchSub job, EvIncr p, EvSetParent k (Some p),
                                   EvPush (GlobalQ (m_threadIndex s)) k, EvNotify]\<rparr>))
           (DeallocateJob job))
   \<and> (m_jobsLeft j = 1 \<and> m_continuation j = Some k \<and> m_parent j = None \<and> k \<noteq> job \<longrightarrow>
       OnJobDone fuel job s =
         DeallocateJob job
            (s\<lparr>heap := (heap s)(job \<mapsto> j\<lparr>m_jobsLeft := 0\<rparr>),
               m_globalQueues := (m_globalQueues s)
                   [m_threadIndex s := m_globalQueues s ! m_threadIndex s @ [k]],
               trace := trace s @ [EvFetchSub job,
                                   EvPush (GlobalQ (m_threadIndex s)) k, EvNotify]\<rparr>))
   \<and> (m_jobsLeft j = 1 \<and> m_continuation j = None \<and> m_parent j = Some p \<longrightarrow>
       OnJobDone (Suc fuel) job s =
         bindE (OnJobDone fuel p
            (s\<lparr>heap := (heap s)(job \<mapsto> j\<lparr>m_jobsLeft := 0\<rparr>),
               trace := trace s @ [EvFetchSub job]\<rparr>))
           (DeallocateJob job))
   \<and> (m_jobsLeft j = 1 \<and> m_continuation j = None \<and> m_parent j = None \<longrightarrow>
       OnJobDone fuel job s =
         DeallocateJob job
            (s\<lparr>heap := (heap s)(job \<mapsto> j\<lparr>m_jobsLeft := 0\<rparr>),
               trace := trace s @ [EvFetchSub job]\<rparr>))"
proof (intro conjI impI)
  assume "m_jobsLeft j \<noteq> 1"
  with hj show "OnJobDone fuel job s =
         Inr (s\<lparr>heap := (heap s)(job \<mapsto> j\<lparr>m_jobsLeft := m_jobsLeft j - 1\<rparr>),
                trace := trace s @ [EvFetchSub job]\<rparr>)"
    by (rule OnJobDone_unfinished)
next
  assume a: "m_jobsLeft j = 1 \<and> m_continuation j = Some k \<and> m_parent j = Some p
        \<and> heap s p = Some pj \<and> heap s k = Some kj \<and> p \<noteq> job \<and> k \<noteq> job \<and> k \<noteq> p"
  with hj run idx show "OnJobDone (Suc fuel) job s =
         bindE (OnJobDone fuel p
            (s\<lparr>heap := (heap s)(job \<mapsto> j\<lparr>m_jobsLeft := 0\<rparr>,
                                 p \<mapsto> pj\<lparr>m_jobsLeft := m_jobsLeft pj + 1\<rparr>,
                                 k \<mapsto> kj\<lparr>m_parent := Some p\<rparr>),
               m_globalQueues := (m_globalQueues s)
                   [m_threadIndex s := m_globalQueues s ! m_threadIndex s @ [k]],
               trace := trace s @ [EvFetchSub job, EvIncr p, EvSetParent k (Some p),
                                   EvPush (GlobalQ (m_threadIndex s)) k, EvNotify]\<rparr>))
           (DeallocateJob job)"
    by (subst OnJobDone.simps)
       (simp add: fetch_sub_Some OnJobDone_continuation_def incr_jobsLeft_def set_parent_def
          emit_def store_def Schedule_no_running bindE_def)
next
  assume a: "m_jobsLeft j = 1 \<and> m_continuation j = Some k \<and> m_parent j = None \<and> k \<noteq> job"
  with hj run idx show "OnJobDone fuel job s =
         DeallocateJob job
            (s\<lparr>heap := (heap s)(job \<mapsto> j\<lparr>m_jobsLeft := 0\<rparr>),
               m_globalQueues := (m_globalQueues s)
                   [m_threadIndex s := m_globalQueues s ! m_threadIndex s @ [k]],
               trace := trace s @ [EvFetchSub job,
                                   EvPush (GlobalQ (m_threadIndex s)) k, EvNotify]\<rparr>)"
    by (subst OnJobDone.simps)
       (simp add: fetch_sub_Some OnJobDone_continuation_def
          emit_def store_def Schedule_no_running)
next
  assume a: "m_jobsLeft j = 1 \<and> m_continuation j = None \<and> m_parent j = Some p"
  with hj show "OnJobDone (Suc fuel) job s =
         bindE (OnJobDone fuel p
            (s\<lparr>heap := (heap s)(job \<mapsto> j\<lparr>m_jobsLeft := 0\<rparr>),
               trace := trace s @ [EvFetchSub job]\<rparr>))
           (DeallocateJob job)"
    by (subst OnJobDone.simps)
       (simp add: fetch_sub_Some OnJobDone_continuation_def bindE_def)
next
  assume a: "m_jobsLeft j = 1 \<and> m_continuation j = None \<and> m_parent j = None"
  with hj show "OnJobDone fuel job s =
         DeallocateJob job
            (s\<lparr>heap := (heap s)(job \<mapsto> j\<lparr>m_jobsLeft := 0\<rparr>),
               trace := trace s @ [EvFetchSub job]\<rparr>)"
    by (subst OnJobDone.simps)
       (simp add: fetch_sub_Some OnJobDone_continuation_def)
qed

theorem OnJobDone_protocol_witness:
  "OnJobDone 1 1 family_state =
     Inr (family_state
       \<lparr>heap := [2 \<mapsto> live_job (Some 0) None 1 2, 0 \<mapsto> live_job None None 2 0,
                 1 \<mapsto> reset_job None],
        m_globalQueues := [[2], []],
        m_freeJobList := Some 1, m_freeJobListCount := 1,
        trace := [EvFetchSub 1, EvIncr 0, EvSetParent 2 (Some 0), EvPush (GlobalQ 0) 2, EvNotify,
                  EvFetchSub 0, EvReset 1, EvSetParent 1 None]\<rparr>)
   \<and> OnJobDone 0 0 family_state =
     Inr (family_state
       \<lparr>heap := [1 \<mapsto> live_job (Some 0) (Some 2) 1 1, 2 \<mapsto> live_job None None 1 2,
                 0 \<mapsto> live_job None None 1 0],
        trace := [EvFetchSub 0]\<rparr>)"
proof -
  have h: "heap family_state 1 = Some (live_job (Some 0) (Some 2) 1 1)"
    "heap family_state 0 = Some (live_job None None 2 0)"
    "heap family_state 2 = Some (live_job None None 1 2)"
    and r: "m_runningJob family_state = None"
    and i: "m_threadIndex family_state < length (m_globalQueues family_state)"
    by (simp_all add: family_state_def two_workers_def)
  note a = OnJobDone_protocol[OF h(1) r i, where k = 2 and p = 0
      and pj = "live_job None None 2 0" and kj = "live_job None None 1 2" and fuel = 0]
  note b = OnJobDone_protocol[OF h(2) r i, where k = 2 and p = 0
      and pj = "live_job None None 2 0" and kj = "live_job None None 1 2" and fuel = 0]
  from a b h show ?thesis
    by (simp add: family_state_def two_workers_def live_job_def reset_job_def small_functor_def
        OnJobDone.simps fetch_sub_def DeallocateJob_def set_parent_def emit_def store_def deref_def
        Reset_def)
qed

text \<open>C3: a job \<open>J\<close> with parent \<open>P\<close> and continuation \<open>K\<close>, the counter of \<open>P\<close> not 0. When
  the subtraction on \<open>J\<close> returns 1, the counter of \<open>P\<close> is incremented and the parent of \<open>K\<close>
  is set to \<open>P\<close> before \<open>K\<close> is pushed and before the subtraction on \<open>P\<close>. That subtraction
  therefore does not return 1: the completion of \<open>J\<close> leaves the record of \<open>P\<close> as it was, its
  counter now counting \<open>K\<close>, and recycles \<open>J\<close> only. When \<open>K\<close> in turn completes as the last
  item \<open>P\<close> waits for, the protocol climbs to \<open>P\<close> first: \<open>P\<close> is recycled, then \<open>K\<close>.\<close>

theorem OnJobDone_splices_continuation:
  assumes run: "m_runningJob s = None"
    and idx: "m_threadIndex s < length (m_globalQueues s)"
  shows "(heap s job = Some j \<and> m_jobsLeft j = 1 \<and> m_continuation j = Some k
        \<and> m_parent j = Some p \<and> heap s p = Some pj \<and> heap s k = Some kj
        \<and> p \<noteq> job \<and> k \<noteq> job \<and> k \<noteq> p \<and> m_jobsLeft pj \<noteq> 0 \<longrightarrow>
      OnJobDone (Suc fuel) job s =
        DeallocateJob job
          (s\<lparr>heap := (heap s)(job \<mapsto> j\<lparr>m_jobsLeft := 0\<rparr>,
                               k \<mapsto> kj\<lparr>m_parent := Some p\<rparr>,
                               p \<mapsto> pj),
             m_globalQueues := (m_globalQueues s)
                 [m_threadIndex s := m_globalQueues s ! m_threadIndex s @ [k]],
             trace := trace s @ [EvFetchSub job, EvIncr p, EvSetParent k (Some p),
                                 EvPush (GlobalQ (m_threadIndex s)) k, EvNotify,
                                 EvFetchSub p]\<rparr>))
   \<and> (heap s k = Some kj \<and> m_jobsLeft kj = 1 \<and> m_continuation kj = None
        \<and> m_parent kj = Some p \<and> heap s p = Some pj \<and> m_jobsLeft pj = 1
        \<and> m_continuation pj = None \<and> m_parent pj = None \<and> k \<noteq> p \<longrightarrow>
      OnJobDone (Suc fuel) k s =
        bindE (DeallocateJob p
                 (s\<lparr>heap := (heap s)(k \<mapsto> kj\<lparr>m_jobsLeft := 0\<rparr>,
                                      p \<mapsto> pj\<lparr>m_jobsLeft := 0\<rparr>),
                    trace := trace s @ [EvFetchSub k, EvFetchSub p]\<rparr>))
          (DeallocateJob k))"
proof (intro conjI impI)
  assume a: "heap s job = Some j \<and> m_jobsLeft j = 1 \<and> m_continuation j = Some k
        \<and> m_parent j = Some p \<and> heap s p = Some pj \<and> heap s k = Some kj
        \<and> p \<noteq> job \<and> k \<noteq> job \<and> k \<noteq> p \<and> m_jobsLeft pj \<noteq> 0"
  let ?sA = "s\<lparr>heap := (heap s)(job \<mapsto> j\<lparr>m_jobsLeft := 0\<rparr>,
                                 p \<mapsto> pj\<lparr>m_jobsLeft := m_jobsLeft pj + 1\<rparr>,
                                 k \<mapsto> kj\<lparr>m_parent := Some p\<rparr>),
               m_globalQueues := (m_globalQueues s)
                   [m_threadIndex s := m_globalQueues s ! m_threadIndex s @ [k]],
               trace := trace s @ [EvFetchSub job, EvIncr p, EvSetParent k (Some p),
                                   EvPush (GlobalQ (m_threadIndex s)) k, EvNotify]\<rparr>"
  have step: "OnJobDone (Suc fuel) job s = bindE (OnJobDone fuel p ?sA) (DeallocateJob job)"
    using a run idx
    by (subst OnJobDone.simps)
       (simp add: fetch_sub_Some OnJobDone_continuation_def incr_jobsLeft_def set_parent_def
          emit_def store_def Schedule_no_running bindE_def)
  have hp': "heap ?sA p = Some (pj\<lparr>m_jobsLeft := m_jobsLeft pj + 1\<rparr>)"
    using a by simp
  have ne: "m_jobsLeft (pj\<lparr>m_jobsLeft := m_jobsLeft pj + 1\<rparr>) \<noteq> 1"
    using a by simp
  have "OnJobDone fuel p ?sA =
     Inr (s\<lparr>heap := (heap s)(job \<mapsto> j\<lparr>m_jobsLeft := 0\<rparr>,
                            k \<mapsto> kj\<lparr>m_parent := Some p\<rparr>,
                            p \<mapsto> pj),
          m_globalQueues := (m_globalQueues s)
              [m_threadIndex s := m_globalQueues s ! m_threadIndex s @ [k]],
          trace := trace s @ [EvFetchSub job, EvIncr p, EvSetParent k (Some p),
                              EvPush (GlobalQ (m_threadIndex s)) k, EvNotify, EvFetchSub p]\<rparr>)"
    unfolding OnJobDone_unfinished[OF hp' ne] using a by simp
  with step show "OnJobDone (Suc fuel) job s =
        DeallocateJob job
          (s\<lparr>heap := (heap s)(job \<mapsto> j\<lparr>m_jobsLeft := 0\<rparr>,
                               k \<mapsto> kj\<lparr>m_parent := Some p\<rparr>,
                               p \<mapsto> pj),
             m_globalQueues := (m_globalQueues s)
                 [m_threadIndex s := m_globalQueues s ! m_threadIndex s @ [k]],
             trace := trace s @ [EvFetchSub job, EvIncr p, EvSetParent k (Some p),
                                 EvPush (GlobalQ (m_threadIndex s)) k, EvNotify,
                                 EvFetchSub p]\<rparr>)"
    by simp
next
  assume b: "heap s k = Some kj \<and> m_jobsLeft kj = 1 \<and> m_continuation kj = None
        \<and> m_parent kj = Some p \<and> heap s p = Some pj \<and> m_jobsLeft pj = 1
        \<and> m_continuation pj = None \<and> m_parent pj = None \<and> k \<noteq> p"
  let ?s1 = "s\<lparr>heap := (heap s)(k \<mapsto> kj\<lparr>m_jobsLeft := 0\<rparr>),
               trace := trace s @ [EvFetchSub k]\<rparr>"
  from b have up: "OnJobDone (Suc fuel) k s = bindE (OnJobDone fuel p ?s1) (DeallocateJob k)"
    by (simp add: OnJobDone_bubble)
  from b have hp: "heap ?s1 p = Some pj" by simp
  from b have "OnJobDone fuel p ?s1 =
      DeallocateJob p
         (s\<lparr>heap := (heap s)(k \<mapsto> kj\<lparr>m_jobsLeft := 0\<rparr>,
                              p \<mapsto> pj\<lparr>m_jobsLeft := 0\<rparr>),
            trace := trace s @ [EvFetchSub k, EvFetchSub p]\<rparr>)"
    using OnJobDone_leaf[OF hp, of fuel] by simp
  with up show "OnJobDone (Suc fuel) k s =
        bindE (DeallocateJob p
                 (s\<lparr>heap := (heap s)(k \<mapsto> kj\<lparr>m_jobsLeft := 0\<rparr>,
                                      p \<mapsto> pj\<lparr>m_jobsLeft := 0\<rparr>),
                    trace := trace s @ [EvFetchSub k, EvFetchSub p]\<rparr>))
          (DeallocateJob k)"
    by simp
qed

theorem OnJobDone_splices_continuation_witness:
  "OnJobDone 1 1 last_child_state =
     DeallocateJob 1
       (last_child_state
          \<lparr>heap := [1 \<mapsto> live_job (Some 0) (Some 2) 0 1, 2 \<mapsto> live_job (Some 0) None 1 2,
                    0 \<mapsto> live_job None None 1 0],
           m_globalQueues := [[2], []],
           trace := [EvFetchSub 1, EvIncr 0, EvSetParent 2 (Some 0), EvPush (GlobalQ 0) 2,
                     EvNotify, EvFetchSub 0]\<rparr>)
   \<and> OnJobDone 1 2 continuation_queued_state =
     bindE (DeallocateJob 0
              (continuation_queued_state
                 \<lparr>heap := [1 \<mapsto> reset_job None, 2 \<mapsto> live_job (Some 0) None 0 2,
                           0 \<mapsto> live_job None None 0 0],
                  trace := [EvFetchSub 1, EvIncr 0, EvSetParent 2 (Some 0),
                            EvPush (GlobalQ 0) 2, EvNotify, EvFetchSub 0, EvReset 1,
                            EvSetParent 1 None, EvFetchSub 2, EvFetchSub 0]\<rparr>))
       (DeallocateJob 2)"
proof -
  have r: "m_runningJob last_child_state = None"
    "m_threadIndex last_child_state < length (m_globalQueues last_child_state)"
    "m_runningJob continuation_queued_state = None"
    "m_threadIndex continuation_queued_state < length (m_globalQueues continuation_queued_state)"
    by (simp_all add: last_child_state_def continuation_queued_state_def two_workers_def)
  have h: "heap last_child_state 1 = Some (live_job (Some 0) (Some 2) 1 1)
    \<and> m_jobsLeft (live_job (Some 0) (Some 2) 1 1) = 1
    \<and> m_continuation (live_job (Some 0) (Some 2) 1 1) = Some 2
    \<and> m_parent (live_job (Some 0) (Some 2) 1 1) = Some 0
    \<and> heap last_child_state 0 = Some (live_job None None 1 0)
    \<and> heap last_child_state 2 = Some (live_job None None 1 2)
    \<and> (0::nat) \<noteq> 1 \<and> (2::nat) \<noteq> 1 \<and> (2::nat) \<noteq> 0
    \<and> m_jobsLeft (live_job None None 1 0) \<noteq> 0"
    by (simp add: last_child_state_def two_workers_def live_job_def)
  have g: "heap continuation_queued_state 2 = Some (live_job (Some 0) None 1 2)
    \<and> m_jobsLeft (live_job (Some 0) None 1 2) = 1
    \<and> m_continuation (live_job (Some 0) None 1 2) = None
    \<and> m_parent (live_job (Some 0) None 1 2) = Some 0
    \<and> heap continuation_queued_state 0 = Some (live_job None None 1 0)
    \<and> m_jobsLeft (live_job None None 1 0) = 1
    \<and> m_continuation (live_job None None 1 0) = None
    \<and> m_parent (live_job None None 1 0) = None \<and> (2::nat) \<noteq> 0"
    by (simp add: continuation_queued_state_def two_workers_def live_job_def)
  note a = OnJobDone_splices_continuation[OF r(1,2), where fuel = 0, THEN conjunct1, rule_format, OF h]
  note b = OnJobDone_splices_continuation[OF r(3,4), where fuel = 0, THEN conjunct2, rule_format, OF g]
  from a b show ?thesis
    by (simp add: last_child_state_def continuation_queued_state_def two_workers_def live_job_def)
qed

text \<open>The order of the two reclamations is the other way round. \<open>J\<close> was the last child of
  \<open>P\<close>; its completion queues \<open>K\<close>. When \<open>K\<close> has run, its completion climbs to \<open>P\<close> first:
  \<open>P\<close> (address 0) is reset and put on the free list, and only then \<open>K\<close> (address 2).\<close>

theorem parent_recycled_before_continuation:
  "OnJobDone 1 1 last_child_state = Inr continuation_queued_state
   \<and> Work 1 no_effect continuation_queued_state =
     Inr (True, continuation_queued_state
       \<lparr>heap := [1 \<mapsto> reset_job None, 0 \<mapsto> reset_job (Some 1), 2 \<mapsto> reset_job (Some 0)],
        m_globalQueues := [[], []],
        m_freeJobList := Some 2, m_freeJobListCount := 3,
        trace := [EvFetchSub 1, EvIncr 0, EvSetParent 2 (Some 0), EvPush (GlobalQ 0) 2, EvNotify,
                  EvFetchSub 0, EvReset 1, EvSetParent 1 None,
                  EvPop (LocalQ 0) None, EvPop (GlobalQ 0) (Some 2), EvInvoke 2,
                  EvFetchSub 2, EvFetchSub 0,
                  EvReset 0, EvSetParent 0 (Some 1),
                  EvReset 2, EvSetParent 2 (Some 0)]\<rparr>)"
proof
  show "OnJobDone 1 1 last_child_state = Inr continuation_queued_state"
    by (simp add: last_child_state_def continuation_queued_state_def two_workers_def
        live_job_def reset_job_def small_functor_def
        OnJobDone.simps fetch_sub_def OnJobDone_continuation_def incr_jobsLeft_def
        Schedule_def ScheduleRaw_def Push_def
        DeallocateJob_def Let_def set_parent_def emit_def store_def deref_def Reset_def)
next
  show "Work 1 no_effect continuation_queued_state =
     Inr (True, continuation_queued_state
       \<lparr>heap := [1 \<mapsto> reset_job None, 0 \<mapsto> reset_job (Some 1), 2 \<mapsto> reset_job (Some 0)],
        m_globalQueues := [[], []],
        m_freeJobList := Some 2, m_freeJobListCount := 3,
        trace := [EvFetchSub 1, EvIncr 0, EvSetParent 2 (Some 0), EvPush (GlobalQ 0) 2, EvNotify,
                  EvFetchSub 0, EvReset 1, EvSetParent 1 None,
                  EvPop (LocalQ 0) None, EvPop (GlobalQ 0) (Some 2), EvInvoke 2,
                  EvFetchSub 2, EvFetchSub 0,
                  EvReset 0, EvSetParent 0 (Some 1),
                  EvReset 2, EvSetParent 2 (Some 0)]\<rparr>)"
    by (simp add: continuation_queued_state_def two_workers_def
        live_job_def reset_job_def small_functor_def no_effect_def
        Work_def Work_pop_def Pop_def steal.simps ExecuteJob_def invoke_def
        OnJobDone.simps fetch_sub_def OnJobDone_continuation_def
        DeallocateJob_def Let_def set_parent_def emit_def store_def deref_def Reset_def)
qed

section \<open>Claims on the worker\<close>

text \<open>C6: for a valid worker, the pops of \<^verbatim>\<open>Work\<close> are those of the spec: the local queue
  of the own index first and, only if it is empty, the global queues in the order
  \<open>(threadIndex + i) mod N\<close>, \<open>i = 0 .. N - 1\<close>, up to the first that gives a job; \<^verbatim>\<open>Work\<close>
  executes the job so obtained.\<close>

theorem Work_pops_local_then_round_robin:
  assumes "valid_worker s"
  shows "Work_pop s = Inr (spec_Work_pop s)
   \<and> Work fuel body s =
       (case spec_Work_pop s of
          (Some j, s1) \<Rightarrow>
            bindE (ExecuteJob fuel body j (s1\<lparr>m_runningJob := Some j\<rparr>)) (\<lambda>s3. Inr (True, s3))
        | (None, s1) \<Rightarrow>
            (case m_deleteJobList s1 of
               Some d \<Rightarrow>
                 bindE (DeleteOldJobs fuel (s1\<lparr>m_runningJob := None\<rparr>)) (\<lambda>s3. Inr (False, s3))
             | None \<Rightarrow> Inr (True, s1\<lparr>m_runningJob := None\<rparr>)))"
  using Work_pop_spec[OF assms]
  by (simp add: Work_def split: prod.splits option.splits)

theorem Work_pops_local_then_round_robin_witness:
  "Work_pop stealing_state =
     Inr (Some 8, stealing_state
        \<lparr>m_globalQueues := [[7], [], []],
         trace := [EvPop (LocalQ 1) None, EvPop (GlobalQ 1) None, EvPop (GlobalQ 2) (Some 8)]\<rparr>)
   \<and> Work 0 no_effect stealing_state =
     Inr (True, stealing_state
        \<lparr>heap := [7 \<mapsto> live_job None None 1 7, 8 \<mapsto> reset_job None],
         m_globalQueues := [[7], [], []],
         m_freeJobList := Some 8, m_freeJobListCount := 1,
         trace := [EvPop (LocalQ 1) None, EvPop (GlobalQ 1) None, EvPop (GlobalQ 2) (Some 8),
                   EvInvoke 8, EvFetchSub 8, EvReset 8, EvSetParent 8 None]\<rparr>)"
proof -
  have v: "valid_worker stealing_state"
    by (simp add: valid_worker_def stealing_state_def)
  have sp: "spec_Work_pop stealing_state =
     (Some 8, stealing_state
        \<lparr>m_globalQueues := [[7], [], []],
         trace := [EvPop (LocalQ 1) None, EvPop (GlobalQ 1) None, EvPop (GlobalQ 2) (Some 8)]\<rparr>)"
    by (simp add: spec_Work_pop_def steal_order_def stealing_state_def upt_rec)
  from Work_pops_local_then_round_robin[OF v, of 0 no_effect] sp show ?thesis
    by (simp add: stealing_state_def live_job_def reset_job_def small_functor_def no_effect_def
        ExecuteJob_def invoke_def OnJobDone.simps fetch_sub_def OnJobDone_continuation_def
        DeallocateJob_def Let_def set_parent_def emit_def store_def deref_def Reset_def)
qed




section \<open>Claims on reclamation\<close>




section \<open>Claims on continuations\<close>




end
